theory Spec2Isabelle
  imports Main
begin

section \<open>BrowserFileSystem: a shallow embedding\<close>

text \<open>
  The module \<^verbatim>\<open>src/filesystem/impls/browser/BrowserFileSystem.js\<close> adapts an
  asynchronous storage driver (\<^verbatim>\<open>_fs\<close>) to the callback interface of the file system
  layer. The embedding keeps the module's function names. JavaScript strings are modelled
  as \<open>string\<close>; every function of the module that is used below only compares characters
  with the slash and concatenates, so the width of a character plays no role.
\<close>

subsection \<open>String primitives of the host language\<close>

text \<open>
  \<^verbatim>\<open>String.prototype.lastIndexOf(c, position)\<close> for a one-character search string:
  the position (absent: the length) is clamped to \<open>0 .. length\<close>, and the largest index
  \<open>k\<close> not above it with \<open>s[k] = c\<close> is returned, \<open>-1\<close> when there is none.
  \<open>scan_down s c k\<close> is the downward search from index \<open>k\<close>.
\<close>

fun scan_down :: "string \<Rightarrow> char \<Rightarrow> nat \<Rightarrow> int" where
  "scan_down s c 0 = (if 0 < length s \<and> s ! 0 = c then 0 else - 1)"
| "scan_down s c (Suc k) =
     (if Suc k < length s \<and> s ! Suc k = c then int (Suc k) else scan_down s c k)"

definition lastIndexOf :: "string \<Rightarrow> char \<Rightarrow> int option \<Rightarrow> int" where
  "lastIndexOf s c position =
     (let len = int (length s);
          pos = (case position of None \<Rightarrow> len | Some p \<Rightarrow> p);
          start = min (max pos 0) len
      in scan_down s c (nat start))"

text \<open>
  \<^verbatim>\<open>String.prototype.substr(start, length)\<close>: a negative start counts from the end,
  a start beyond the end gives the empty string, a length that is not positive gives the
  empty string.
\<close>

definition substr :: "string \<Rightarrow> int \<Rightarrow> int \<Rightarrow> string" where
  "substr s start len =
     (let size = int (length s);
          st = (if start < 0 then max (size + start) 0 else min start size)
      in take (nat len) (drop (nat st) s))"

subsection \<open>The containing directory of a path\<close>

text \<open>
  \<^verbatim>\<open>
  function _parentPath(path) {
      var lastSlash = path.lastIndexOf("/");
      if (lastSlash === path.length - 1) {
          lastSlash = path.lastIndexOf("/", lastSlash - 1);
      }
      return path.substr(0, lastSlash + 1);
  }
  \<close>
\<close>

definition parentPath :: "string \<Rightarrow> string" where
  "parentPath path =
     (let lastSlash = lastIndexOf path CHR ''/'' None;
          lastSlash' = (if lastSlash = int (length path) - 1
                        then lastIndexOf path CHR ''/'' (Some (lastSlash - 1))
                        else lastSlash)
      in substr path 0 (lastSlash' + 1))"

text \<open>
  The parent path as the specification words it: one trailing slash is ignored, and the
  result is the prefix of the path up to and including the last slash that remains, the
  empty string when no slash remains.
\<close>

definition drop_trailing_slash :: "string \<Rightarrow> string" where
  "drop_trailing_slash path =
     (if path \<noteq> [] \<and> last path = CHR ''/'' then butlast path else path)"

definition through_last_slash :: "string \<Rightarrow> string" where
  "through_last_slash q = rev (dropWhile (\<lambda>c. c \<noteq> CHR ''/'') (rev q))"

definition spec_parentPath :: "string \<Rightarrow> string" where
  "spec_parentPath path = through_last_slash (drop_trailing_slash path)"

subsection \<open>Values that cross the module's interface\<close>

text \<open>
  Modelled from the spec: the module \<^verbatim>\<open>filesystem/FileSystemError\<close> is required by the
  source but is not part of it. The specification gives its three canonical error kinds;
  each is a non-empty string constant, hence truthy.
\<close>

datatype FileSystemError = NOT_FOUND | ALREADY_EXISTS | UNKNOWN

text \<open>
  Modelled from the spec: the constructor \<^verbatim>\<open>filesystem/FileSystemStats\<close> is required by
  the source but is not part of it. It is built from the options object
  \<^verbatim>\<open>{ isFile, mtime, size }\<close> and is an immutable snapshot of these three values.
\<close>

record FileSystemStats =
  isFile :: bool
  mtime :: int
  size' :: int

text \<open>What the driver hands to a completion function: an error object, of which the module
  reads the \<^verbatim>\<open>name\<close> only, or the driver's own stats object.\<close>

datatype native_error = NativeError (name: string)

record native_stats =
  n_isFile :: bool
  n_mtime :: int
  n_size :: int

text \<open>The JavaScript values the module passes to callbacks. An array is a list of slots;
  \<open>None\<close> is a hole (an index below the length that was never assigned).\<close>

datatype jsval =
    JUndefined
  | JNull
  | JBool bool
  | JString string
  | JError FileSystemError
  | JStats FileSystemStats
  | JArray "jsval option list"

fun truthy :: "jsval \<Rightarrow> bool" where
  "truthy JUndefined = False"
| "truthy JNull = False"
| "truthy (JBool b) = b"
| "truthy (JString s) = (s \<noteq> [])"
| "truthy (JError e) = True"
| "truthy (JStats st) = True"
| "truthy (JArray a) = True"

text \<open>A parameter that the caller did not pass is \<^verbatim>\<open>undefined\<close>.\<close>

definition arg :: "nat \<Rightarrow> jsval list \<Rightarrow> jsval" where
  "arg n args = (if n < length args then args ! n else JUndefined)"

text \<open>\<^verbatim>\<open>a[idx] = v\<close>: an assignment beyond the end extends the array, leaving holes.\<close>

definition array_set :: "jsval option list \<Rightarrow> nat \<Rightarrow> jsval \<Rightarrow> jsval option list" where
  "array_set a idx v =
     (if idx < length a then a[idx := Some v]
      else a @ replicate (idx - length a) None @ [Some v])"

text \<open>\<^verbatim>\<open>a[idx]\<close> read back: a hole and an index beyond the end have no value.\<close>

definition array_get :: "jsval option list \<Rightarrow> nat \<Rightarrow> jsval option" where
  "array_get a idx = (if idx < length a then a ! idx else None)"

subsection \<open>Turns of the event loop\<close>

text \<open>
  The module is single-threaded: every completion function of the driver runs as one turn
  of the event loop. A turn is modelled as a function on the closure variables \<open>'v\<close> of the
  operation and the trace of observable events, returning how the turn completed. The
  trace records the primitive calls issued to the driver, the invocations of the caller's
  callback and the invocations of \<^verbatim>\<open>_changeCallback\<close>, each with its arguments.
\<close>

datatype prim =
    FsStat string
  | FsReaddir string
  | FsMkdir string int
  | FsReadFile string string
  | FsWriteFile string string string
  | FsUnlink string
  | ShellMoveToTrash string

datatype event = Driver prim | Callback "jsval list" | Change "jsval list"

datatype completion = Normal | Throw

type_synonym 'v proc = "'v \<times> event list \<Rightarrow> ('v \<times> event list) \<times> completion"

text \<open>A function value supplied from outside (the caller's callback, the change
  listener): the module sees only that it is invoked and whether it throws.\<close>

type_synonym callback = "jsval list \<Rightarrow> completion"

text \<open>Two particular function values: one that returns and one that throws, whatever
  its arguments.\<close>

definition returning :: callback where
  "returning args = Normal"

definition throwing :: callback where
  "throwing args = Throw"

definition emit :: "event \<Rightarrow> 'v proc" where
  "emit e = (\<lambda>(v, t). ((v, t @ [e]), Normal))"

definition call :: "callback \<Rightarrow> jsval list \<Rightarrow> 'v proc" where
  "call cb args = (\<lambda>(v, t). ((v, t @ [Callback args]), cb args))"

text \<open>\<^verbatim>\<open>p; q\<close>: an exception in \<open>p\<close> skips \<open>q\<close>.\<close>

definition seq :: "'v proc \<Rightarrow> 'v proc \<Rightarrow> 'v proc" where
  "seq p q = (\<lambda>s. case p s of (s', Normal) \<Rightarrow> q s' | (s', Throw) \<Rightarrow> (s', Throw))"

text \<open>\<^verbatim>\<open>try { p } finally { q }\<close>: \<open>q\<close> runs however \<open>p\<close> completed; an exception of
  \<open>q\<close> replaces the completion of \<open>p\<close>.\<close>

definition try_finally :: "'v proc \<Rightarrow> 'v proc \<Rightarrow> 'v proc" where
  "try_finally p q =
     (\<lambda>s. case p s of (s', c) \<Rightarrow>
            (case q s' of (s'', Normal) \<Rightarrow> (s'', c) | (s'', Throw) \<Rightarrow> (s'', Throw)))"

text \<open>Successive turns: an exception ends its own turn only.\<close>

fun turns :: "'v proc list \<Rightarrow> 'v \<times> event list \<Rightarrow> 'v \<times> event list" where
  "turns [] s = s"
| "turns (p # ps) s = turns ps (fst (p s))"

definition trace :: "unit proc \<Rightarrow> event list" where
  "trace p = snd (fst (p ((), [])))"

definition outcome :: "unit proc \<Rightarrow> completion" where
  "outcome p = snd (p ((), []))"

definition callbacks_of :: "event list \<Rightarrow> jsval list list" where
  "callbacks_of t = concat (map (\<lambda>e. case e of Callback args \<Rightarrow> [args] | _ \<Rightarrow> []) t)"

definition observable :: "event list \<Rightarrow> event list" where
  "observable t = filter (\<lambda>e. case e of Driver p \<Rightarrow> False | _ \<Rightarrow> True) t"

definition signals_of :: "event list \<Rightarrow> jsval list list" where
  "signals_of t = concat (map (\<lambda>e. case e of Change args \<Rightarrow> [args] | _ \<Rightarrow> []) t)"

definition stat_calls_of :: "event list \<Rightarrow> string list" where
  "stat_calls_of t = concat (map (\<lambda>e. case e of Driver (FsStat p) \<Rightarrow> [p] | _ \<Rightarrow> []) t)"

subsection \<open>The module's variables\<close>

text \<open>
  \<^verbatim>\<open>
  var _changeCallback,            // Callback to notify FileSystem of watcher changes
      _changeTimeout,             // Timeout used to batch up file watcher changes
      _pendingChanges = {};       // Pending file watcher changes
  \<close>
  \<open>focusHandlers\<close> are the handlers that \<^verbatim>\<open>initWatchers\<close> registers on the window.
\<close>

record module_vars =
  changeCallback :: "callback option"
  changeTimeout :: "nat option"
  pendingChanges :: "string list"
  focusHandlers :: "(unit proc) list"

definition module_init :: module_vars where
  "module_init = \<lparr>changeCallback = None, changeTimeout = None, pendingChanges = [],
                   focusHandlers = []\<rparr>"

text \<open>An invocation of the listener, recorded as a \<open>Change\<close> event.\<close>

definition listener_call :: "callback \<Rightarrow> jsval list \<Rightarrow> 'v proc" where
  "listener_call l args = (\<lambda>(v, t). ((v, t @ [Change args]), l args))"

text \<open>\<^verbatim>\<open>_changeCallback(args)\<close>: calling the variable while it is still undefined is a
  TypeError.\<close>

definition changeCallback_call :: "module_vars \<Rightarrow> jsval list \<Rightarrow> 'v proc" where
  "changeCallback_call m args =
     (case changeCallback m of
        None \<Rightarrow> (\<lambda>s. (s, Throw))
      | Some l \<Rightarrow> listener_call l args)"

text \<open>
  \<^verbatim>\<open>
  function initWatchers(callback) {
      _changeCallback = callback;
      $(window).on("focus", function () { callback(null); });
  }
  \<close>
\<close>

definition initWatchers :: "callback \<Rightarrow> module_vars \<Rightarrow> module_vars" where
  "initWatchers callback m =
     m\<lparr>changeCallback := Some callback,
       focusHandlers := focusHandlers m @ [listener_call callback [JNull]]\<rparr>"

subsection \<open>Error translation and stat\<close>

text \<open>
  \<^verbatim>\<open>
  function _mapError(err) {
      if (!err) { return null; }
      switch (err.name) {
      case "ENoEntry": return FileSystemError.NOT_FOUND;
      case "EExists":  return FileSystemError.ALREADY_EXISTS;
      }
      return FileSystemError.UNKNOWN;
  }
  \<close>
\<close>

definition mapError :: "native_error option \<Rightarrow> jsval" where
  "mapError err =
     (case err of
        None \<Rightarrow> JNull
      | Some e \<Rightarrow>
          if name e = ''ENoEntry'' then JError NOT_FOUND
          else if name e = ''EExists'' then JError ALREADY_EXISTS
          else JError UNKNOWN)"

text \<open>
  \<^verbatim>\<open>
  function stat(path, callback) {
      _fs.stat(path, function (err, stats) {
          if (err) { callback(_mapError(err)); }
          else {
              var options = { isFile: stats.isFile(), mtime: stats.mtime, size: stats.size },
                  fsStats = new FileSystemStats(options);
              callback(null, fsStats);
          }
      });
  }
  \<close>
  \<open>stat_done r callback\<close> is the completion function applied to the driver's outcome \<open>r\<close>;
  \<open>stat\<close> issues the call and, in a later turn, completes. A callback parameter is the
  behaviour of the function value passed in: for the caller's own callback \<open>cb\<close> it is
  \<open>call cb\<close>.
\<close>

definition stat_done :: "native_error + native_stats \<Rightarrow> (jsval list \<Rightarrow> 'v proc) \<Rightarrow> 'v proc" where
  "stat_done r callback =
     (case r of
        Inl err \<Rightarrow> callback [mapError (Some err)]
      | Inr stats \<Rightarrow>
          callback [JNull, JStats \<lparr>isFile = n_isFile stats, mtime = n_mtime stats,
                                   size' = n_size stats\<rparr>])"

text \<open>The arguments \<^verbatim>\<open>(err, stat)\<close> that a callback of \<open>stat\<close> is invoked with.\<close>

definition stat_args :: "native_error + native_stats \<Rightarrow> jsval list" where
  "stat_args r =
     (case r of
        Inl err \<Rightarrow> [mapError (Some err)]
      | Inr stats \<Rightarrow> [JNull, JStats \<lparr>isFile = n_isFile stats, mtime = n_mtime stats,
                                        size' = n_size stats\<rparr>])"

definition stat :: "string \<Rightarrow> native_error + native_stats \<Rightarrow> (jsval list \<Rightarrow> 'v proc) \<Rightarrow> 'v proc" where
  "stat path r callback = seq (emit (Driver (FsStat path))) (stat_done r callback)"

text \<open>
  \<^verbatim>\<open>
  function exists(path, callback) {
      stat(path, function (err) {
          if (err) { callback(false); } else { callback(true); }
      });
  }
  \<close>
\<close>

definition exists :: "string \<Rightarrow> native_error + native_stats \<Rightarrow> (jsval list \<Rightarrow> 'v proc) \<Rightarrow> 'v proc" where
  "exists path r callback =
     stat path r (\<lambda>args. if truthy (arg 0 args) then callback [JBool False]
                          else callback [JBool True])"

subsection \<open>readdir\<close>

text \<open>
  \<^verbatim>\<open>
  function readdir(path, callback) {
      _fs.readdir(path, function (err, contents) {
          if (err) { callback(_mapError(err)); return; }
          var count = contents.length;
          if (!count) { callback(null, [], []); return; }
          var stats = [];
          contents.forEach(function (val, idx) {
              stat(path + "/" + val, function (err, stat) {
                  stats[idx] = err || stat;
                  count--;
                  if (count <= 0) { callback(null, contents, stats); }
              });
          });
      });
  }
  \<close>
  The closure variables are \<open>count\<close> and \<open>stats\<close>. The \<open>forEach\<close> issues one stat call per
  entry; the completions arrive later, one turn each, in an order the driver chooses:
  \<open>evs\<close> lists them as pairs of the entry's index and the driver's outcome.
\<close>

record rd_vars =
  rd_count :: int
  rd_stats :: "jsval option list"

definition rd_init :: rd_vars where
  "rd_init = \<lparr>rd_count = 0, rd_stats = []\<rparr>"

definition readdir_onStat ::
  "(jsval list \<Rightarrow> rd_vars proc) \<Rightarrow> string list \<Rightarrow> nat \<Rightarrow> jsval list \<Rightarrow> rd_vars proc" where
  "readdir_onStat callback contents idx args =
     (\<lambda>(v, t).
        let v1 = v\<lparr>rd_stats := array_set (rd_stats v) idx
                       (if truthy (arg 0 args) then arg 0 args else arg 1 args)\<rparr>;
            v2 = v1\<lparr>rd_count := rd_count v1 - 1\<rparr>
        in if rd_count v2 \<le> 0
           then callback [JNull, JArray (map (\<lambda>n. Some (JString n)) contents),
                          JArray (rd_stats v2)] (v2, t)
           else ((v2, t), Normal))"

definition readdir_listed ::
  "string \<Rightarrow> (jsval list \<Rightarrow> rd_vars proc) \<Rightarrow> native_error + string list \<Rightarrow> rd_vars proc" where
  "readdir_listed path callback r =
     (case r of
        Inl err \<Rightarrow> callback [mapError (Some err)]
      | Inr contents \<Rightarrow>
          (\<lambda>(v, t).
             let v1 = v\<lparr>rd_count := int (length contents)\<rparr>
             in if rd_count v1 = 0
                then callback [JNull, JArray [], JArray []] (v1, t)
                else ((v1\<lparr>rd_stats := []\<rparr>,
                       t @ map (\<lambda>val. Driver (FsStat (path @ ''/'' @ val))) contents),
                      Normal)))"

definition readdir_turns ::
  "string \<Rightarrow> (jsval list \<Rightarrow> rd_vars proc) \<Rightarrow> native_error + string list \<Rightarrow>
   (nat \<times> (native_error + native_stats)) list \<Rightarrow> rd_vars proc list" where
  "readdir_turns path callback r evs =
     seq (emit (Driver (FsReaddir path))) (readdir_listed path callback r) #
     (case r of
        Inl err \<Rightarrow> []
      | Inr contents \<Rightarrow>
          if contents = [] then []
          else map (\<lambda>(idx, r'). stat_done r' (readdir_onStat callback contents idx)) evs)"

definition readdir ::
  "string \<Rightarrow> (jsval list \<Rightarrow> rd_vars proc) \<Rightarrow> native_error + string list \<Rightarrow>
   (nat \<times> (native_error + native_stats)) list \<Rightarrow> event list" where
  "readdir path callback r evs = snd (turns (readdir_turns path callback r evs) (rd_init, []))"

text \<open>The value that \<^verbatim>\<open>err || stat\<close> stores for an outcome of the driver.\<close>

definition stat_slot :: "native_error + native_stats \<Rightarrow> jsval" where
  "stat_slot r =
     (case r of
        Inl err \<Rightarrow> mapError (Some err)
      | Inr stats \<Rightarrow> JStats \<lparr>isFile = n_isFile stats, mtime = n_mtime stats,
                                size' = n_size stats\<rparr>)"

subsection \<open>mkdir\<close>

text \<open>
  \<^verbatim>\<open>
  function mkdir(path, mode, callback) {
      if (typeof mode === "function") {
          callback = mode;
          mode = parseInt("0755", 8);
      }
      _fs.mkdir(path, mode, function (err) {
          if (err) { callback(_mapError(err)); }
          else {
              stat(path, function (err, stat) {
                  try { callback(err, stat); }
                  finally { _changeCallback(_parentPath(path)); }
              });
          }
      });
  }
  \<close>
  The second parameter is a mode (\<open>Inl\<close>) or, when the mode is left out, the callback
  (\<open>Inr\<close>); \<^verbatim>\<open>parseInt("0755", 8)\<close> is 493.
\<close>

definition mkdir ::
  "module_vars \<Rightarrow> string \<Rightarrow> int + (jsval list \<Rightarrow> 'v proc) \<Rightarrow> (jsval list \<Rightarrow> 'v proc) \<Rightarrow>
   native_error option \<Rightarrow> native_error + native_stats \<Rightarrow> 'v proc" where
  "mkdir m path mode callback r_mkdir r_stat =
     (let callback' = (case mode of Inl n \<Rightarrow> callback | Inr f \<Rightarrow> f);
          mode' = (case mode of Inl n \<Rightarrow> n | Inr f \<Rightarrow> 493)
      in seq (emit (Driver (FsMkdir path mode')))
           (case r_mkdir of
              Some err \<Rightarrow> callback' [mapError (Some err)]
            | None \<Rightarrow>
                stat path r_stat
                  (\<lambda>args. try_finally (callback' [arg 0 args, arg 1 args])
                             (changeCallback_call m [JString (parentPath path)]))))"

subsection \<open>readFile\<close>

text \<open>
  \<^verbatim>\<open>
  function readFile(path, options, callback) {
      var encoding = options.encoding || "utf8";
      // Execute the read and stat calls in parallel
      var done = false, data, stat, err;
      _fs.readFile(path, encoding, function (_err, _data) {
          if (_err) { callback(_mapError(_err)); return; }
          if (done) { callback(err, err ? null : _data, stat); }
          else { done = true; data = _data; }
      });
      exports.stat(path, function (_err, _stat) {
          if (done) { callback(_err, _err ? null : data, _stat); }
          else { done = true; stat = _stat; err = _err; }
      });
  }
  \<close>
\<close>

record options =
  encoding :: "string option"

definition encoding_of :: "options \<Rightarrow> string" where
  "encoding_of opts =
     (case encoding opts of
        None \<Rightarrow> ''utf8''
      | Some e \<Rightarrow> if e = [] then ''utf8'' else e)"

record rf_vars =
  rf_done :: bool
  rf_data :: jsval
  rf_stat :: jsval
  rf_err :: jsval

definition rf_init :: rf_vars where
  "rf_init = \<lparr>rf_done = False, rf_data = JUndefined, rf_stat = JUndefined,
               rf_err = JUndefined\<rparr>"

definition readFile_onRead ::
  "(jsval list \<Rightarrow> rf_vars proc) \<Rightarrow> native_error + string \<Rightarrow> rf_vars proc" where
  "readFile_onRead callback r =
     (\<lambda>(v, t).
        case r of
          Inl err' \<Rightarrow> callback [mapError (Some err')] (v, t)
        | Inr data' \<Rightarrow>
            if rf_done v
            then callback [rf_err v, if truthy (rf_err v) then JNull else JString data',
                           rf_stat v] (v, t)
            else ((v\<lparr>rf_done := True, rf_data := JString data'\<rparr>, t), Normal))"

definition readFile_onStat :: "(jsval list \<Rightarrow> rf_vars proc) \<Rightarrow> jsval list \<Rightarrow> rf_vars proc" where
  "readFile_onStat callback args =
     (\<lambda>(v, t).
        if rf_done v
        then callback [arg 0 args, if truthy (arg 0 args) then JNull else rf_data v,
                       arg 1 args] (v, t)
        else ((v\<lparr>rf_done := True, rf_stat := arg 1 args, rf_err := arg 0 args\<rparr>, t),
              Normal))"

text \<open>Both calls are issued in the turn of the caller; the two completions follow in
  either order.\<close>

datatype order = ReadFirst | StatFirst

definition readFile_issue :: "string \<Rightarrow> options \<Rightarrow> rf_vars proc" where
  "readFile_issue path opts =
     seq (emit (Driver (FsReadFile path (encoding_of opts)))) (emit (Driver (FsStat path)))"

definition readFile_completions ::
  "(jsval list \<Rightarrow> rf_vars proc) \<Rightarrow> native_error + string \<Rightarrow> native_error + native_stats \<Rightarrow>
   order \<Rightarrow> rf_vars proc list" where
  "readFile_completions callback r_read r_stat ord =
     (case ord of
        ReadFirst \<Rightarrow> [readFile_onRead callback r_read,
                      stat_done r_stat (readFile_onStat callback)]
      | StatFirst \<Rightarrow> [stat_done r_stat (readFile_onStat callback),
                      readFile_onRead callback r_read])"

text \<open>The trace after the first \<open>n\<close> completions; \<open>readFile\<close> is the trace after both.\<close>

definition readFile_after ::
  "nat \<Rightarrow> string \<Rightarrow> options \<Rightarrow> (jsval list \<Rightarrow> rf_vars proc) \<Rightarrow> native_error + string \<Rightarrow>
   native_error + native_stats \<Rightarrow> order \<Rightarrow> event list" where
  "readFile_after n path opts callback r_read r_stat ord =
     snd (turns (readFile_issue path opts #
                 take n (readFile_completions callback r_read r_stat ord)) (rf_init, []))"

definition readFile ::
  "string \<Rightarrow> options \<Rightarrow> (jsval list \<Rightarrow> rf_vars proc) \<Rightarrow> native_error + string \<Rightarrow>
   native_error + native_stats \<Rightarrow> order \<Rightarrow> event list" where
  "readFile path opts callback r_read r_stat ord =
     readFile_after 2 path opts callback r_read r_stat ord"

subsection \<open>writeFile, unlink and moveToTrash\<close>

text \<open>
  \<^verbatim>\<open>
  function writeFile(path, data, options, callback) {
      var encoding = options.encoding || "utf8";
      exists(path, function (alreadyExists) {
          _fs.writeFile(path, data, encoding, function (err) {
              if (err) { callback(_mapError(err)); }
              else {
                  stat(path, function (err, stat) {
                      try { callback(err, stat); }
                      finally {
                          if (alreadyExists) { _changeCallback(path, stat); }
                          else { _changeCallback(_parentPath(path)); }
                      }
                  });
              }
          });
      });
  }
  \<close>
\<close>

definition writeFile ::
  "module_vars \<Rightarrow> string \<Rightarrow> string \<Rightarrow> options \<Rightarrow> (jsval list \<Rightarrow> 'v proc) \<Rightarrow>
   native_error + native_stats \<Rightarrow> native_error option \<Rightarrow> native_error + native_stats \<Rightarrow>
   'v proc" where
  "writeFile m path data opts callback r_exists r_write r_stat =
     exists path r_exists
       (\<lambda>args0.
          let alreadyExists = arg 0 args0
          in seq (emit (Driver (FsWriteFile path data (encoding_of opts))))
               (case r_write of
                  Some err \<Rightarrow> callback [mapError (Some err)]
                | None \<Rightarrow>
                    stat path r_stat
                      (\<lambda>args. try_finally (callback [arg 0 args, arg 1 args])
                                 (if truthy alreadyExists
                                  then changeCallback_call m [JString path, arg 1 args]
                                  else changeCallback_call m [JString (parentPath path)]))))"

text \<open>
  \<^verbatim>\<open>
  function unlink(path, callback) {
      _fs.unlink(path, function (err) {
          try { callback(_mapError(err)); }
          finally { _changeCallback(_parentPath(path)); }
      });
  }
  \<close>
\<close>

definition unlink ::
  "module_vars \<Rightarrow> string \<Rightarrow> (jsval list \<Rightarrow> 'v proc) \<Rightarrow> native_error option \<Rightarrow> 'v proc" where
  "unlink m path callback r =
     seq (emit (Driver (FsUnlink path)))
       (try_finally (callback [mapError r])
          (changeCallback_call m [JString (parentPath path)]))"

text \<open>
  \<^verbatim>\<open>
  function moveToTrash(path, callback) {
      appshell.fs.moveToTrash(path, function (err) {
          try { callback(_mapError(err)); }
          finally { _changeCallback(_parentPath(path)); }
      });
  }
  \<close>
\<close>

definition moveToTrash ::
  "module_vars \<Rightarrow> string \<Rightarrow> (jsval list \<Rightarrow> 'v proc) \<Rightarrow> native_error option \<Rightarrow> 'v proc" where
  "moveToTrash m path callback r =
     seq (emit (Driver (ShellMoveToTrash path)))
       (try_finally (callback [mapError r])
          (changeCallback_call m [JString (parentPath path)]))"

subsection \<open>Runs of the operations that call the change listener\<close>

text \<open>
  \<^verbatim>\<open>_changeCallback\<close> is called in four functions of the module: \<open>mkdir\<close>, \<open>writeFile\<close>,
  \<open>unlink\<close> and \<open>moveToTrash\<close>. A request is one call of one of them by a caller, with the
  caller's arguments and the outcomes of the driver calls that the operation makes; a run
  performs a list of requests one after the other, starting from the empty trace.
\<close>

datatype request =
    Mkdir string "int + callback" callback "native_error option" "native_error + native_stats"
  | WriteFile string string options callback "native_error + native_stats"
      "native_error option" "native_error + native_stats"
  | Unlink string callback "native_error option"
  | MoveToTrash string callback "native_error option"

fun perform :: "module_vars \<Rightarrow> request \<Rightarrow> unit proc" where
  "perform m (Mkdir path mode cb r_mkdir r_stat) =
     mkdir m path (map_sum id call mode) (call cb) r_mkdir r_stat"
| "perform m (WriteFile path data opts cb r_exists r_write r_stat) =
     writeFile m path data opts (call cb) r_exists r_write r_stat"
| "perform m (Unlink path cb r) = unlink m path (call cb) r"
| "perform m (MoveToTrash path cb r) = moveToTrash m path (call cb) r"

definition run :: "module_vars \<Rightarrow> request list \<Rightarrow> event list" where
  "run m reqs = snd (turns (map (perform m) reqs) ((), []))"

section \<open>Properties\<close>

subsection \<open>The parent path\<close>

lemma scan_down_take:
  "take (nat (scan_down s c k + 1)) s = rev (dropWhile (\<lambda>x. x \<noteq> c) (rev (take (Suc k) s)))"
proof (induction k)
  case 0
  show ?case by (cases s) auto
next
  case (Suc k)
  show ?case
  proof (cases "Suc k < length s")
    case True
    then have split: "take (Suc (Suc k)) s = take (Suc k) s @ [s ! Suc k]"
      by (simp add: take_Suc_conv_app_nth)
    show ?thesis
    proof (cases "s ! Suc k = c")
      case True
      with \<open>Suc k < length s\<close> split show ?thesis
        by (simp add: nat_add_distrib)
    next
      case False
      with \<open>Suc k < length s\<close> split Suc.IH show ?thesis by simp
    qed
  next
    case False
    with Suc.IH show ?thesis by simp
  qed
qed

lemma scan_down_bounds: "- 1 \<le> scan_down s c k \<and> scan_down s c k \<le> int k"
  by (induction k) auto

lemma scan_down_last:
  "s \<noteq> [] \<Longrightarrow> length s - 1 \<le> k \<Longrightarrow> scan_down s c k = int (length s) - 1 \<longleftrightarrow> last s = c"
proof (induction k)
  case 0
  then have "length s = 1" by (cases s) auto
  then obtain x where "s = [x]" by (cases s) auto
  then show ?case by simp
next
  case (Suc k)
  show ?case
  proof (cases "Suc k < length s")
    case True
    with Suc.prems have k: "Suc k = length s - 1" by simp
    then have l: "last s = s ! Suc k" using Suc.prems(1) by (simp add: last_conv_nth)
    have "scan_down s c k \<le> int k" using scan_down_bounds by blast
    with k have less: "scan_down s c k < int (length s) - 1" by linarith
    have top: "int (Suc k) = int (length s) - 1" using k Suc.prems(1) by (cases s) auto
    show ?thesis
    proof (cases "s ! Suc k = c")
      case True
      then have "scan_down s c (Suc k) = int (Suc k)" using \<open>Suc k < length s\<close> by simp
      with top l True show ?thesis by simp
    next
      case False
      then have "scan_down s c (Suc k) = scan_down s c k" by simp
      with less l False show ?thesis by simp
    qed
  next
    case False
    with Suc show ?thesis by simp
  qed
qed

lemma through_last_slash_split:
  "c \<in> set q \<Longrightarrow> \<exists>pre suf. q = pre @ c # suf \<and> c \<notin> set suf \<and> rev (dropWhile (\<lambda>x. x \<noteq> c) (rev q)) = pre @ [c]"
proof (induction q rule: rev_induct)
  case Nil
  then show ?case by simp
next
  case (snoc x xs)
  show ?case
  proof (cases "x = c")
    case True
    then show ?thesis by (intro exI[of _ xs] exI[of _ "[]"]) simp
  next
    case False
    with snoc.prems have "c \<in> set xs" by simp
    from snoc.IH[OF this] obtain pre suf where
      "xs = pre @ c # suf" "c \<notin> set suf" "rev (dropWhile (\<lambda>x. x \<noteq> c) (rev xs)) = pre @ [c]"
      by blast
    with False show ?thesis
      by (intro exI[of _ pre] exI[of _ "suf @ [x]"]) simp
  qed
qed

lemma through_last_slash_none:
  "c \<notin> set q \<Longrightarrow> rev (dropWhile (\<lambda>x. x \<noteq> c) (rev q)) = []"
  by (auto simp: dropWhile_eq_Nil_conv)

lemma parentPath_no_trailing:
  assumes "path \<noteq> []" "last path \<noteq> CHR ''/''"
  shows "parentPath path = through_last_slash path"
proof -
  have "scan_down path CHR ''/'' (length path) \<noteq> int (length path) - 1"
    using scan_down_last[of path "length path" "CHR ''/''"] assms by simp
  then have "parentPath path = take (nat (scan_down path CHR ''/'' (length path) + 1)) path"
    by (simp add: parentPath_def lastIndexOf_def substr_def Let_def)
  also have "\<dots> = through_last_slash path"
    by (simp add: scan_down_take through_last_slash_def)
  finally show ?thesis .
qed

lemma parentPath_trailing:
  assumes "2 \<le> length path" "last path = CHR ''/''"
  shows "parentPath path = through_last_slash (butlast path)"
proof -
  from assms have ne: "path \<noteq> []" by auto
  have first: "scan_down path CHR ''/'' (length path) = int (length path) - 1"
    using scan_down_last[of path "length path" "CHR ''/''"] assms ne by simp
  have start: "nat (min (max (int (length path) - 1 - 1) 0) (int (length path))) = length path - 2"
    using assms(1) by simp
  have "parentPath path = take (nat (scan_down path CHR ''/'' (length path - 2) + 1)) path"
    using first start by (simp add: parentPath_def lastIndexOf_def substr_def Let_def)
  also have "\<dots> = rev (dropWhile (\<lambda>x. x \<noteq> CHR ''/'') (rev (take (Suc (length path - 2)) path)))"
    by (rule scan_down_take)
  also have "take (Suc (length path - 2)) path = butlast path"
    using assms(1) by (simp add: butlast_conv_take Suc_diff_Suc numeral_2_eq_2)
  finally show ?thesis by (simp add: through_last_slash_def)
qed

lemma parentPath_refines_spec:
  assumes "path \<noteq> ''/''"
  shows "parentPath path = spec_parentPath path"
proof (cases "path = []")
  case True
  then show ?thesis
    by (simp add: parentPath_def lastIndexOf_def substr_def spec_parentPath_def
        drop_trailing_slash_def through_last_slash_def)
next
  case False
  show ?thesis
  proof (cases "last path = CHR ''/''")
    case True
    have "2 \<le> length path"
    proof (rule ccontr)
      assume "\<not> 2 \<le> length path"
      then have "length path < 2" by simp
      with False have "length path = 1" by (cases path) auto
      then obtain x where "path = [x]" by (cases path) auto
      with True assms show False by simp
    qed
    with True False show ?thesis
      by (simp add: parentPath_trailing spec_parentPath_def drop_trailing_slash_def)
  next
    case nt: False
    with False show ?thesis
      by (simp add: parentPath_no_trailing spec_parentPath_def drop_trailing_slash_def)
  qed
qed

text \<open>
  Claim C10, as amended. For every path other than the root \<open>''/''\<close>, \<open>_parentPath\<close>
  ignores one trailing slash and returns the prefix of the path up to and including the
  last slash that remains: when a slash remains the result is that prefix, which ends in
  a slash, and when none remains the result is the empty string. For the root itself the
  result is \<open>''/''\<close> (see the counterexample).
\<close>

theorem parentPath_through_last_remaining_slash:
  "path \<noteq> ''/'' \<Longrightarrow>
     parentPath path = spec_parentPath path \<and>
     (CHR ''/'' \<in> set (drop_trailing_slash path) \<longrightarrow>
        (\<exists>pre suf. drop_trailing_slash path = pre @ CHR ''/'' # suf \<and>
                    CHR ''/'' \<notin> set suf \<and> parentPath path = pre @ ''/'')) \<and>
     (CHR ''/'' \<notin> set (drop_trailing_slash path) \<longrightarrow> parentPath path = [])"
proof -
  assume root: "path \<noteq> ''/''"
  then have eq: "parentPath path = through_last_slash (drop_trailing_slash path)"
    by (simp add: parentPath_refines_spec spec_parentPath_def)
  have some: "\<exists>pre suf. drop_trailing_slash path = pre @ CHR ''/'' # suf \<and>
                CHR ''/'' \<notin> set suf \<and> parentPath path = pre @ ''/''"
    if "CHR ''/'' \<in> set (drop_trailing_slash path)"
    using through_last_slash_split[OF that] eq by (simp add: through_last_slash_def)
  have none: "parentPath path = []" if "CHR ''/'' \<notin> set (drop_trailing_slash path)"
    using through_last_slash_none[OF that] eq by (simp add: through_last_slash_def)
  from root some none show ?thesis
    by (simp add: parentPath_refines_spec)
qed

theorem parentPath_through_last_remaining_slash_witness:
  "''/a/b/'' \<noteq> ''/'' \<and> parentPath ''/a/b/'' = ''/a/'' \<and> parentPath ''/a/b'' = ''/a/'' \<and>
   parentPath ''b/'' = []"
  using parentPath_through_last_remaining_slash [of "''/a/b/''"]
    parentPath_through_last_remaining_slash [of "''/a/b''"]
    parentPath_through_last_remaining_slash [of "''b/''"]
  by (simp add: spec_parentPath_def drop_trailing_slash_def through_last_slash_def)

text \<open>
  Claim C10 as stated fails at the root: the path \<open>''/''\<close> contains no slash besides the
  trailing one, yet its parent path is \<open>''/''\<close>, not the empty string. The second search
  starts at position \<open>-1\<close>, which \<open>lastIndexOf\<close> clamps to \<open>0\<close>, where the slash is.
\<close>

theorem parentPath_root_counterexample:
  "CHR ''/'' \<notin> set (drop_trailing_slash ''/'') \<and> parentPath ''/'' = ''/'' \<and>
   parentPath ''/'' \<noteq> spec_parentPath ''/''"
  by (simp add: parentPath_def lastIndexOf_def substr_def drop_trailing_slash_def
      spec_parentPath_def through_last_slash_def)

subsection \<open>The sequential operations\<close>

lemma changeCallback_registered:
  "changeCallback_call (initWatchers l m) args = listener_call l args"
  by (simp add: changeCallback_call_def initWatchers_def)

lemma stat_done_args: "stat_done r k = k (stat_args r)"
  by (cases r) (simp_all add: stat_done_def stat_args_def)

lemma stat_run:
  "stat path r k (v, t) = k (stat_args r) (v, t @ [Driver (FsStat path)])"
  by (simp add: stat_def seq_def emit_def stat_done_args)

lemma finally_run:
  "try_finally (call cb args) (listener_call l args') (v, t) =
     ((v, t @ [Callback args, Change args']),
      (case l args' of Normal \<Rightarrow> cb args | Throw \<Rightarrow> Throw))"
  by (simp add: try_finally_def call_def listener_call_def split: completion.splits)

lemma truthy_stat_err: "truthy (arg 0 (stat_args r)) = (case r of Inl e \<Rightarrow> True | Inr st \<Rightarrow> False)"
  by (cases r) (simp_all add: stat_args_def arg_def mapError_def)

lemma arg_first: "arg 0 (x # xs) = x"
  by (simp add: arg_def)

lemma exists_run:
  "exists path r k (v, t) =
     k [JBool (case r of Inl e \<Rightarrow> False | Inr st \<Rightarrow> True)] (v, t @ [Driver (FsStat path)])"
  by (cases r) (simp_all add: exists_def stat_run truthy_stat_err)

lemma unlink_run:
  "unlink (initWatchers l m) path (call cb) r (v, t) =
     ((v, t @ [Driver (FsUnlink path), Callback [mapError r], Change [JString (parentPath path)]]),
      (case l [JString (parentPath path)] of Normal \<Rightarrow> cb [mapError r] | Throw \<Rightarrow> Throw))"
  by (simp add: unlink_def seq_def emit_def changeCallback_registered finally_run)

lemma mkdir_run_failed:
  "mkdir m path (map_sum id call mode) (call cb) (Some err) r_stat (v, t) =
     ((v, t @ [Driver (FsMkdir path (case mode of Inl n \<Rightarrow> n | Inr f \<Rightarrow> 493)),
               Callback [mapError (Some err)]]),
      (case mode of Inl n \<Rightarrow> cb | Inr f \<Rightarrow> f) [mapError (Some err)])"
  by (cases mode) (simp_all add: mkdir_def seq_def emit_def call_def)

lemma mkdir_run_created:
  "mkdir (initWatchers l m) path (map_sum id call mode) (call cb) None r_stat (v, t) =
     ((v, t @ [Driver (FsMkdir path (case mode of Inl n \<Rightarrow> n | Inr f \<Rightarrow> 493)),
               Driver (FsStat path),
               Callback [arg 0 (stat_args r_stat), arg 1 (stat_args r_stat)],
               Change [JString (parentPath path)]]),
      (case l [JString (parentPath path)] of
         Normal \<Rightarrow> (case mode of Inl n \<Rightarrow> cb | Inr f \<Rightarrow> f)
                     [arg 0 (stat_args r_stat), arg 1 (stat_args r_stat)]
       | Throw \<Rightarrow> Throw))"
  by (cases mode)
    (simp_all add: mkdir_def seq_def emit_def stat_run changeCallback_registered finally_run
      split: completion.splits)

lemma writeFile_run_failed:
  "writeFile m path data opts (call cb) r_exists (Some err) r_stat (v, t) =
     ((v, t @ [Driver (FsStat path), Driver (FsWriteFile path data (encoding_of opts)),
               Callback [mapError (Some err)]]),
      cb [mapError (Some err)])"
  by (simp add: writeFile_def exists_run seq_def emit_def call_def)

lemma writeFile_run_created:
  "writeFile (initWatchers l m) path data opts (call cb) (Inl e) None r_stat (v, t) =
     ((v, t @ [Driver (FsStat path), Driver (FsWriteFile path data (encoding_of opts)),
               Driver (FsStat path),
               Callback [arg 0 (stat_args r_stat), arg 1 (stat_args r_stat)],
               Change [JString (parentPath path)]]),
      (case l [JString (parentPath path)] of
         Normal \<Rightarrow> cb [arg 0 (stat_args r_stat), arg 1 (stat_args r_stat)]
       | Throw \<Rightarrow> Throw))"
  by (simp add: writeFile_def exists_run seq_def emit_def stat_run arg_first
      changeCallback_registered finally_run split: completion.splits)

lemma writeFile_run_modified:
  "writeFile (initWatchers l m) path data opts (call cb) (Inr st) None r_stat (v, t) =
     ((v, t @ [Driver (FsStat path), Driver (FsWriteFile path data (encoding_of opts)),
               Driver (FsStat path),
               Callback [arg 0 (stat_args r_stat), arg 1 (stat_args r_stat)],
               Change [JString path, arg 1 (stat_args r_stat)]]),
      (case l [JString path, arg 1 (stat_args r_stat)] of
         Normal \<Rightarrow> cb [arg 0 (stat_args r_stat), arg 1 (stat_args r_stat)]
       | Throw \<Rightarrow> Throw))"
  by (simp add: writeFile_def exists_run seq_def emit_def stat_run arg_first
      changeCallback_registered finally_run split: completion.splits)

lemma parentPath_differs:
  assumes "path \<noteq> []" "path \<noteq> ''/''"
  shows "parentPath path \<noteq> path"
proof -
  have le: "length (through_last_slash q) \<le> length q" for q
    using length_dropWhile_le[of "\<lambda>c. c \<noteq> CHR ''/''" "rev q"]
    by (simp add: through_last_slash_def)
  have short: "length (through_last_slash (drop_trailing_slash path)) < length path"
  proof (cases "last path = CHR ''/''")
    case True
    with assms(1) have "drop_trailing_slash path = butlast path"
      by (simp add: drop_trailing_slash_def)
    moreover have "length (through_last_slash (butlast path)) \<le> length (butlast path)"
      by (rule le)
    moreover have "length (butlast path) < length path"
      using assms(1) by (metis length_butlast diff_less length_greater_0_conv zero_less_one)
    ultimately show ?thesis by (metis le_less_trans)
  next
    case False
    from assms(1) obtain xs x where p: "path = xs @ [x]" by (cases path rule: rev_cases) auto
    with False have "x \<noteq> CHR ''/''" by simp
    then have "through_last_slash path = through_last_slash xs"
      by (simp add: through_last_slash_def p)
    moreover have "length (through_last_slash xs) \<le> length xs"
      by (rule le)
    ultimately show ?thesis using False p by (simp add: drop_trailing_slash_def)
  qed
  have "parentPath path = through_last_slash (drop_trailing_slash path)"
    using assms(2) by (simp add: parentPath_refines_spec spec_parentPath_def)
  with short show ?thesis by auto
qed

lemma signals_of_append: "signals_of (t @ u) = signals_of t @ signals_of u"
  by (simp add: signals_of_def)

text \<open>
  Claim C9. For every path and every outcome of the underlying stat, \<open>exists\<close> issues the
  stat call and then invokes its callback exactly once, with the single argument
  \<open>true\<close> when the stat succeeded and \<open>false\<close> when it failed; no error argument is ever
  passed.
\<close>

theorem exists_calls_back_once_with_boolean:
  "trace (exists path r (call cb)) =
     [Driver (FsStat path),
      Callback [JBool (case r of Inl err \<Rightarrow> False | Inr stats \<Rightarrow> True)]]"
  by (simp add: trace_def exists_run call_def)

text \<open>
  Claim C7, as amended. Every \<open>unlink\<close> call, whether the driver removed the path or
  failed, invokes the caller's callback and then emits one change signal for the parent
  of the path, and issues no stat call. A \<open>mkdir\<close> call emits that signal, after the
  callback, when the driver created the directory (whatever the following stat returns);
  when the driver failed to create it, the callback receives the translated error and
  no signal is emitted.
\<close>

theorem unlink_and_created_mkdir_signal_parent:
  "trace (unlink (initWatchers l m) path (call cb) r) =
     [Driver (FsUnlink path), Callback [mapError r], Change [JString (parentPath path)]] \<and>
   stat_calls_of (trace (unlink (initWatchers l m) path (call cb) r)) = [] \<and>
   trace (mkdir (initWatchers l m) path (map_sum id call mode) (call cb) None r_stat) =
     [Driver (FsMkdir path (case mode of Inl n \<Rightarrow> n | Inr f \<Rightarrow> 493)),
      Driver (FsStat path),
      Callback [arg 0 (stat_args r_stat), arg 1 (stat_args r_stat)],
      Change [JString (parentPath path)]] \<and>
   trace (mkdir m' path (map_sum id call mode) (call cb) (Some err) r_stat) =
     [Driver (FsMkdir path (case mode of Inl n \<Rightarrow> n | Inr f \<Rightarrow> 493)),
      Callback [mapError (Some err)]]"
  by (simp add: trace_def unlink_run mkdir_run_created mkdir_run_failed stat_calls_of_def)

text \<open>
  Claim C7 as stated fails for \<open>mkdir\<close>: when the driver reports that the directory
  already exists, the caller is told so and the listener is not invoked at all.
\<close>

theorem mkdir_failed_no_signal_counterexample:
  "trace (mkdir (initWatchers returning module_init) ''/a'' (Inl 493)
            (call returning) (Some (NativeError ''EExists''))
            (Inl (NativeError ''ENoEntry''))) =
     [Driver (FsMkdir ''/a'' 493), Callback [JError ALREADY_EXISTS]]"
  by (simp add: trace_def mkdir_def seq_def emit_def call_def mapError_def)

text \<open>
  Claim C8. In \<open>writeFile\<close> after a successful write, in \<open>mkdir\<close> after a successful
  create and in \<open>unlink\<close>, the caller's callback is invoked first and the change signal is
  emitted after it, exactly once, for every behaviour of the callback: also when it
  throws, in which case the exception still leaves the turn after the signal.
\<close>

theorem callback_precedes_single_change_signal:
  "observable (trace (writeFile (initWatchers l m) path data opts (call cb) r_exists None r_stat)) =
     [Callback [arg 0 (stat_args r_stat), arg 1 (stat_args r_stat)],
      Change (case r_exists of
                Inl e \<Rightarrow> [JString (parentPath path)]
              | Inr st \<Rightarrow> [JString path, arg 1 (stat_args r_stat)])] \<and>
   observable (trace (mkdir (initWatchers l m) path (map_sum id call mode) (call cb) None r_stat)) =
     [Callback [arg 0 (stat_args r_stat), arg 1 (stat_args r_stat)],
      Change [JString (parentPath path)]] \<and>
   observable (trace (unlink (initWatchers l m) path (call cb) r)) =
     [Callback [mapError r], Change [JString (parentPath path)]] \<and>
   outcome (writeFile (initWatchers l m) path data opts (call throwing) r_exists None r_stat) = Throw \<and>
   outcome (mkdir (initWatchers l m) path (Inl n) (call throwing) None r_stat) = Throw \<and>
   outcome (unlink (initWatchers l m) path (call throwing) r) = Throw"
  by (cases r_exists)
    (simp_all add: trace_def outcome_def observable_def writeFile_run_created
      writeFile_run_modified mkdir_run_created[where mode = "Inl n", simplified]
      mkdir_run_created unlink_run throwing_def
      split: completion.splits)

text \<open>
  Claim C6, as amended. When the raw write succeeds, exactly one change signal follows
  the callback: for a path that did not exist before the write (the stat of the existence
  check failed) it is a signal for the computed parent path and carries no stats, and the
  parent path differs from the path itself unless the path is empty or the root; for a
  path that existed it is a signal for the path itself, carrying the stats of the stat
  that followed the write (undefined when that stat failed). When the raw write fails the
  translated error is passed to the callback at once: no stat follows and no signal.
\<close>

theorem writeFile_signal_branches:
  "trace (writeFile (initWatchers l m) path data opts (call cb) (Inl e) None r_stat) =
     [Driver (FsStat path), Driver (FsWriteFile path data (encoding_of opts)),
      Driver (FsStat path),
      Callback [arg 0 (stat_args r_stat), arg 1 (stat_args r_stat)],
      Change [JString (parentPath path)]] \<and>
   trace (writeFile (initWatchers l m) path data opts (call cb) (Inr st) None r_stat) =
     [Driver (FsStat path), Driver (FsWriteFile path data (encoding_of opts)),
      Driver (FsStat path),
      Callback [arg 0 (stat_args r_stat), arg 1 (stat_args r_stat)],
      Change [JString path, arg 1 (stat_args r_stat)]] \<and>
   arg 1 (stat_args (Inr stats)) =
     JStats \<lparr>isFile = n_isFile stats, mtime = n_mtime stats, size' = n_size stats\<rparr> \<and>
   arg 1 (stat_args (Inl e')) = JUndefined \<and>
   trace (writeFile m' path data opts (call cb) r_exists (Some err) r_stat) =
     [Driver (FsStat path), Driver (FsWriteFile path data (encoding_of opts)),
      Callback [mapError (Some err)]] \<and>
   (path \<noteq> [] \<and> path \<noteq> ''/'' \<longrightarrow> parentPath path \<noteq> path) \<and>
   parentPath [] = [] \<and> parentPath ''/'' = ''/''"
proof -
  have roots: "parentPath [] = [] \<and> parentPath ''/'' = ''/''"
    by (simp add: parentPath_def lastIndexOf_def substr_def)
  then show ?thesis
    by (simp add: trace_def writeFile_run_created writeFile_run_modified writeFile_run_failed
        parentPath_differs stat_args_def arg_def)
qed

theorem writeFile_signal_branches_witness:
  "(''/a/b.txt'' \<noteq> [] \<and> ''/a/b.txt'' \<noteq> ''/'') \<and> parentPath ''/a/b.txt'' \<noteq> ''/a/b.txt'' \<and>
   signals_of (trace (writeFile (initWatchers returning module_init) ''/a/b.txt'' ''x''
      \<lparr>encoding = None\<rparr> (call returning) (Inl (NativeError ''ENoEntry'')) None
      (Inr \<lparr>n_isFile = True, n_mtime = 7, n_size = 1\<rparr>))) = [[JString ''/a/'']] \<and>
   signals_of (trace (writeFile (initWatchers returning module_init) ''/a/b.txt'' ''x''
      \<lparr>encoding = None\<rparr> (call returning)
      (Inr \<lparr>n_isFile = True, n_mtime = 6, n_size = 1\<rparr>) None
      (Inr \<lparr>n_isFile = True, n_mtime = 7, n_size = 1\<rparr>))) =
     [[JString ''/a/b.txt'', JStats \<lparr>isFile = True, mtime = 7, size' = 1\<rparr>]]"
proof -
  have parent: "parentPath ''/a/b.txt'' = ''/a/''"
    by (simp add: parentPath_refines_spec spec_parentPath_def drop_trailing_slash_def
        through_last_slash_def)
  show ?thesis
    using writeFile_signal_branches
      [where l = returning and m = module_init and path = "''/a/b.txt''"
         and data = "''x''" and opts = "\<lparr>encoding = None\<rparr>" and cb = returning
         and e = "NativeError ''ENoEntry''"
         and st = "\<lparr>n_isFile = True, n_mtime = 6, n_size = 1\<rparr>"
         and r_stat = "Inr \<lparr>n_isFile = True, n_mtime = 7, n_size = 1\<rparr>"]
    by (simp add: parent signals_of_def stat_args_def arg_def)
qed

text \<open>
  Claim C6 as stated fails at the root: when the existence check of \<open>''/''\<close> fails and the
  write succeeds, the signal goes to the parent path of \<open>''/''\<close>, which is \<open>''/''\<close>, the path
  itself.
\<close>

theorem writeFile_root_counterexample:
  "signals_of (trace (writeFile (initWatchers returning module_init) ''/'' ''x''
      \<lparr>encoding = None\<rparr> (call returning) (Inl (NativeError ''ENoEntry'')) None
      (Inr \<lparr>n_isFile = True, n_mtime = 7, n_size = 1\<rparr>))) = [[JString ''/'']]"
  by (simp add: trace_def writeFile_run_created signals_of_def parentPath_def lastIndexOf_def
      substr_def)

subsection \<open>readFile\<close>

lemma callbacks_of_simps:
  "callbacks_of [] = []"
  "callbacks_of (Driver p # t) = callbacks_of t"
  "callbacks_of (Callback args # t) = args # callbacks_of t"
  "callbacks_of (Change args # t) = callbacks_of t"
  by (simp_all add: callbacks_of_def)

lemma readFile_issue_run:
  "readFile_issue path opts (v, t) =
     ((v, t @ [Driver (FsReadFile path (encoding_of opts)), Driver (FsStat path)]), Normal)"
  by (simp add: readFile_issue_def seq_def emit_def)

lemma readFile_onRead_failed:
  "fst (readFile_onRead (call cb) (Inl e) (v, t)) = (v, t @ [Callback [mapError (Some e)]])"
  by (simp add: readFile_onRead_def call_def)

lemma readFile_onRead_first:
  "\<not> rf_done v \<Longrightarrow>
   fst (readFile_onRead (call cb) (Inr d) (v, t)) = (v\<lparr>rf_done := True, rf_data := JString d\<rparr>, t)"
  by (simp add: readFile_onRead_def)

lemma readFile_onRead_second:
  "rf_done v \<Longrightarrow>
   fst (readFile_onRead (call cb) (Inr d) (v, t)) =
     (v, t @ [Callback [rf_err v, if truthy (rf_err v) then JNull else JString d, rf_stat v]])"
  by (simp add: readFile_onRead_def call_def)

lemma readFile_onStat_first:
  "\<not> rf_done v \<Longrightarrow>
   fst (stat_done r (readFile_onStat (call cb)) (v, t)) =
     (v\<lparr>rf_done := True, rf_stat := arg 1 (stat_args r), rf_err := arg 0 (stat_args r)\<rparr>, t)"
  by (simp add: stat_done_args readFile_onStat_def)

lemma readFile_onStat_second:
  "rf_done v \<Longrightarrow>
   fst (stat_done r (readFile_onStat (call cb)) (v, t)) =
     (v, t @ [Callback [arg 0 (stat_args r),
                        if truthy (arg 0 (stat_args r)) then JNull else rf_data v,
                        arg 1 (stat_args r)]])"
  by (simp add: stat_done_args readFile_onStat_def call_def)

lemmas readFile_steps =
  readFile_after_def readFile_completions_def readFile_issue_run rf_init_def
  readFile_onRead_failed readFile_onRead_first readFile_onRead_second
  readFile_onStat_first readFile_onStat_second callbacks_of_simps

lemma stat_args_failed: "stat_args (Inl e) = [mapError (Some e)]"
  by (simp add: stat_args_def)

lemma mapError_truthy: "truthy (mapError (Some e))"
  by (simp add: mapError_def)

lemma readFile_callbacks_after_first:
  "callbacks_of (readFile_after 1 path opts (call cb) r_read r_stat ord) =
     (case (ord, r_read) of (ReadFirst, Inl e) \<Rightarrow> [[mapError (Some e)]] | _ \<Rightarrow> [])"
  by (cases ord; cases r_read) (simp_all add: readFile_steps)

lemma readFile_callbacks:
  "callbacks_of (readFile path opts (call cb) r_read r_stat ord) =
     (case r_read of
        Inl e \<Rightarrow> [[mapError (Some e)]]
      | Inr d \<Rightarrow> [[arg 0 (stat_args r_stat),
                    if truthy (arg 0 (stat_args r_stat)) then JNull else JString d,
                    arg 1 (stat_args r_stat)]])"
  by (cases ord; cases r_read)
    (simp_all add: readFile_def readFile_steps numeral_2_eq_2)

text \<open>
  Claim C3. When the read half fails, the combined callback receives the translated read
  error as its only argument (no data, no stats), whatever the stat half returns and
  whichever half completes first. When the read succeeds and only the stat half fails, the
  callback receives the stat error, \<open>null\<close> for the data and no stats: the call has
  failed as a whole.
\<close>

theorem readFile_read_failure_wins:
  "callbacks_of (readFile path opts (call cb) (Inl e) r_stat ord) = [[mapError (Some e)]] \<and>
   mapError (Some e) \<in> {JError NOT_FOUND, JError ALREADY_EXISTS, JError UNKNOWN} \<and>
   callbacks_of (readFile path opts (call cb) (Inr d) (Inl e') ord) =
     [[mapError (Some e'), JNull, JUndefined]]"
  by (simp add: readFile_callbacks stat_args_failed arg_def mapError_truthy)
    (simp add: mapError_def)

text \<open>
  Claim C4. For every outcome of the read, every outcome of the stat, either order of the
  two completions and every behaviour of the callback, the combined callback of
  \<open>readFile\<close> is invoked exactly once.
\<close>

theorem readFile_calls_back_exactly_once:
  "length (callbacks_of (readFile path opts (call cb) r_read r_stat ord)) = 1"
  by (cases r_read) (simp_all add: readFile_callbacks)

text \<open>
  Claim C5, as amended. Nothing is called back before a completion. After the first
  completion the combined callback has been invoked if and only if that completion is a
  failed read, which reports its error at once; in every other case the first completion
  only records its outcome. After both completions the callback has been invoked exactly
  once, so after a read that failed first the completion of the stat invokes nothing.
\<close>

theorem readFile_callback_after_each_completion:
  "callbacks_of (readFile_after 0 path opts (call cb) r_read r_stat ord) = [] \<and>
   callbacks_of (readFile_after 1 path opts (call cb) r_read r_stat ord) =
     (case (ord, r_read) of (ReadFirst, Inl e) \<Rightarrow> [[mapError (Some e)]] | _ \<Rightarrow> []) \<and>
   length (callbacks_of (readFile_after 2 path opts (call cb) r_read r_stat ord)) = 1"
proof -
  have "callbacks_of (readFile_after 0 path opts (call cb) r_read r_stat ord) = []"
    by (simp add: readFile_steps)
  moreover have "length (callbacks_of (readFile_after 2 path opts (call cb) r_read r_stat ord)) = 1"
    using readFile_callbacks[of path opts cb r_read r_stat ord]
    by (cases r_read) (simp_all add: readFile_def)
  moreover note readFile_callbacks_after_first[of path opts cb r_read r_stat ord]
  ultimately show ?thesis
    by blast
qed

text \<open>
  Claim C5 as stated fails when the read fails before the stat has completed: the
  callback is invoked in the turn of the first completion.
\<close>

theorem readFile_failed_read_first_counterexample:
  "callbacks_of (readFile_after 1 ''/f'' \<lparr>encoding = None\<rparr> (call returning)
      (Inl (NativeError ''ENoEntry'')) (Inr \<lparr>n_isFile = True, n_mtime = 7, n_size = 1\<rparr>)
      ReadFirst) = [[JError NOT_FOUND]]"
  by (simp add: readFile_steps mapError_def)

subsection \<open>The change listener\<close>

lemma signals_of_simps:
  "signals_of [] = []"
  "signals_of (Driver p # t) = signals_of t"
  "signals_of (Callback args # t) = signals_of t"
  "signals_of (Change args # t) = args # signals_of t"
  by (simp_all add: signals_of_def)

lemma moveToTrash_run:
  "moveToTrash (initWatchers l m) path (call cb) r (v, t) =
     ((v, t @ [Driver (ShellMoveToTrash path), Callback [mapError r],
               Change [JString (parentPath path)]]),
      (case l [JString (parentPath path)] of Normal \<Rightarrow> cb [mapError r] | Throw \<Rightarrow> Throw))"
  by (simp add: moveToTrash_def seq_def emit_def changeCallback_registered finally_run)

lemma perform_appends:
  "fst (perform (initWatchers l m) q (v, t)) = (v, t @ trace (perform (initWatchers l m) q))"
proof (cases q)
  case (Mkdir path mode cb r_mkdir r_stat)
  then show ?thesis
    by (cases r_mkdir) (simp_all add: trace_def mkdir_run_created mkdir_run_failed)
next
  case (WriteFile path data opts cb r_exists r_write r_stat)
  then show ?thesis
    by (cases r_write; cases r_exists)
      (simp_all add: trace_def writeFile_run_created writeFile_run_modified writeFile_run_failed)
next
  case (Unlink path cb r)
  then show ?thesis by (simp add: trace_def unlink_run)
next
  case (MoveToTrash path cb r)
  then show ?thesis by (simp add: trace_def moveToTrash_run)
qed

lemma turns_perform:
  "snd (turns (map (perform (initWatchers l m)) reqs) ((), t)) =
     t @ concat (map (\<lambda>q. trace (perform (initWatchers l m) q)) reqs)"
proof (induction reqs arbitrary: t)
  case Nil
  show ?case by simp
next
  case (Cons q reqs)
  show ?case
    by (simp add: perform_appends Cons.IH)
qed

lemma signals_of_concat: "signals_of (concat ts) = concat (map signals_of ts)"
  by (induction ts) (simp_all add: signals_of_append signals_of_simps)

lemma run_concat:
  "run (initWatchers l m) reqs = concat (map (\<lambda>q. trace (perform (initWatchers l m) q)) reqs)"
  using turns_perform[of l m reqs "[]"] by (simp add: run_def)

lemma run_signals:
  "signals_of (run (initWatchers l m) reqs) =
     concat (map (\<lambda>q. signals_of (trace (perform (initWatchers l m) q))) reqs)"
  by (simp add: run_concat signals_of_concat comp_def)

lemma unlinks_signal_each:
  "signals_of (run (initWatchers l m) (map (\<lambda>(cb, r). Unlink path cb r) calls)) =
     replicate (length calls) [JString (parentPath path)]"
  by (induction calls)
    (simp_all add: run_signals trace_def unlink_run signals_of_simps split_beta)

lemma writes_signal_each:
  "signals_of (run (initWatchers l m)
      (map (\<lambda>(data, opts, cb, st, r_stat). WriteFile path data opts cb (Inr st) None r_stat)
         writes)) =
     map (\<lambda>(data, opts, cb, st, r_stat). [JString path, arg 1 (stat_args r_stat)]) writes"
  by (induction writes)
    (simp_all add: run_signals trace_def writeFile_run_modified signals_of_simps split_beta)

text \<open>
  Claim C1, as amended. The module neither accumulates nor deduplicates change signals.
  The operations that emit change signals are \<open>mkdir\<close>, \<open>writeFile\<close>, \<open>unlink\<close> and
  \<open>moveToTrash\<close>. In each of them the signal is an invocation of the registered listener
  itself, made in the turn of the completion, directly after the caller's callback:
  \<open>unlink\<close> and \<open>moveToTrash\<close> always emit one signal, \<open>mkdir\<close> and \<open>writeFile\<close> emit one when
  the create or the write succeeded and none when it failed. The trace of any run of such
  calls, of whatever kinds and for whatever paths, is the concatenation of the traces of
  the single calls, so the listener is invoked once for every signal, in the order of the
  signals, and nothing is merged or dropped: \<open>N\<close> removals of the same path give \<open>N\<close>
  invocations for its parent, and \<open>N\<close> successful writes to the same existing path give
  \<open>N\<close> invocations for that path. The variables \<open>_pendingChanges\<close> and \<open>_changeTimeout\<close>
  are declared but never written.
\<close>

theorem every_signal_invokes_listener:
  "run (initWatchers l m) reqs =
     concat (map (\<lambda>q. trace (perform (initWatchers l m) q)) reqs) \<and>
   signals_of (run (initWatchers l m) reqs) =
     concat (map (\<lambda>q. signals_of (trace (perform (initWatchers l m) q))) reqs) \<and>
   trace (perform (initWatchers l m) (Unlink path cb r)) =
     [Driver (FsUnlink path), Callback [mapError r], Change [JString (parentPath path)]] \<and>
   trace (perform (initWatchers l m) (MoveToTrash path cb r)) =
     [Driver (ShellMoveToTrash path), Callback [mapError r],
      Change [JString (parentPath path)]] \<and>
   trace (perform (initWatchers l m) (Mkdir path mode cb None r_stat)) =
     [Driver (FsMkdir path (case mode of Inl n \<Rightarrow> n | Inr f \<Rightarrow> 493)),
      Driver (FsStat path),
      Callback [arg 0 (stat_args r_stat), arg 1 (stat_args r_stat)],
      Change [JString (parentPath path)]] \<and>
   trace (perform (initWatchers l m) (Mkdir path mode cb (Some err) r_stat)) =
     [Driver (FsMkdir path (case mode of Inl n \<Rightarrow> n | Inr f \<Rightarrow> 493)),
      Callback [mapError (Some err)]] \<and>
   trace (perform (initWatchers l m) (WriteFile path data opts cb (Inl e) None r_stat)) =
     [Driver (FsStat path), Driver (FsWriteFile path data (encoding_of opts)),
      Driver (FsStat path),
      Callback [arg 0 (stat_args r_stat), arg 1 (stat_args r_stat)],
      Change [JString (parentPath path)]] \<and>
   trace (perform (initWatchers l m) (WriteFile path data opts cb (Inr st) None r_stat)) =
     [Driver (FsStat path), Driver (FsWriteFile path data (encoding_of opts)),
      Driver (FsStat path),
      Callback [arg 0 (stat_args r_stat), arg 1 (stat_args r_stat)],
      Change [JString path, arg 1 (stat_args r_stat)]] \<and>
   trace (perform (initWatchers l m) (WriteFile path data opts cb r_exists (Some err) r_stat)) =
     [Driver (FsStat path), Driver (FsWriteFile path data (encoding_of opts)),
      Callback [mapError (Some err)]] \<and>
   signals_of (run (initWatchers l m) (map (\<lambda>(cb, r). Unlink path cb r) calls)) =
     replicate (length calls) [JString (parentPath path)] \<and>
   signals_of (run (initWatchers l m)
      (map (\<lambda>(data, opts, cb, st, r_stat). WriteFile path data opts cb (Inr st) None r_stat)
         writes)) =
     map (\<lambda>(data, opts, cb, st, r_stat). [JString path, arg 1 (stat_args r_stat)]) writes \<and>
   pendingChanges (initWatchers l m) = pendingChanges m \<and>
   changeTimeout (initWatchers l m) = changeTimeout m"
proof -
  have kept: "pendingChanges (initWatchers l m) = pendingChanges m"
    "changeTimeout (initWatchers l m) = changeTimeout m"
    by (simp_all add: initWatchers_def)
  have single:
    "trace (perform (initWatchers l m) (Unlink path cb r)) =
       [Driver (FsUnlink path), Callback [mapError r], Change [JString (parentPath path)]]"
    "trace (perform (initWatchers l m) (MoveToTrash path cb r)) =
       [Driver (ShellMoveToTrash path), Callback [mapError r],
        Change [JString (parentPath path)]]"
    "trace (perform (initWatchers l m) (Mkdir path mode cb None r_stat)) =
       [Driver (FsMkdir path (case mode of Inl n \<Rightarrow> n | Inr f \<Rightarrow> 493)),
        Driver (FsStat path),
        Callback [arg 0 (stat_args r_stat), arg 1 (stat_args r_stat)],
        Change [JString (parentPath path)]]"
    "trace (perform (initWatchers l m) (Mkdir path mode cb (Some err) r_stat)) =
       [Driver (FsMkdir path (case mode of Inl n \<Rightarrow> n | Inr f \<Rightarrow> 493)),
        Callback [mapError (Some err)]]"
    "trace (perform (initWatchers l m) (WriteFile path data opts cb (Inl e) None r_stat)) =
       [Driver (FsStat path), Driver (FsWriteFile path data (encoding_of opts)),
        Driver (FsStat path),
        Callback [arg 0 (stat_args r_stat), arg 1 (stat_args r_stat)],
        Change [JString (parentPath path)]]"
    "trace (perform (initWatchers l m) (WriteFile path data opts cb (Inr st) None r_stat)) =
       [Driver (FsStat path), Driver (FsWriteFile path data (encoding_of opts)),
        Driver (FsStat path),
        Callback [arg 0 (stat_args r_stat), arg 1 (stat_args r_stat)],
        Change [JString path, arg 1 (stat_args r_stat)]]"
    "trace (perform (initWatchers l m) (WriteFile path data opts cb r_exists (Some err) r_stat)) =
       [Driver (FsStat path), Driver (FsWriteFile path data (encoding_of opts)),
        Callback [mapError (Some err)]]"
    by (simp_all add: trace_def unlink_run moveToTrash_run mkdir_run_created mkdir_run_failed
        writeFile_run_created writeFile_run_modified writeFile_run_failed)
  show ?thesis
    by (intro conjI run_concat run_signals single unlinks_signal_each writes_signal_each kept)
qed

text \<open>A mixed run: four calls of four kinds that signal the same directory invoke the
  listener four times for it; the failed \<open>mkdir\<close> adds nothing.\<close>

lemma mixed_run_signals_example:
  "signals_of (run (initWatchers returning module_init)
      [Mkdir ''/a/x'' (Inl 493) returning None (Inr \<lparr>n_isFile = False, n_mtime = 1, n_size = 0\<rparr>),
       Unlink ''/a/y'' throwing (Some (NativeError ''ENoEntry'')),
       WriteFile ''/a/w'' ''x'' \<lparr>encoding = None\<rparr> returning (Inl (NativeError ''ENoEntry''))
         None (Inr \<lparr>n_isFile = True, n_mtime = 2, n_size = 1\<rparr>),
       MoveToTrash ''/a/z'' returning None,
       Mkdir ''/a/x'' (Inr returning) returning (Some (NativeError ''EExists''))
         (Inr \<lparr>n_isFile = False, n_mtime = 1, n_size = 0\<rparr>)]) =
     [[JString ''/a/''], [JString ''/a/''], [JString ''/a/''], [JString ''/a/'']]"
proof -
  have parent: "parentPath ''/a/x'' = ''/a/''" "parentPath ''/a/y'' = ''/a/''"
    "parentPath ''/a/w'' = ''/a/''" "parentPath ''/a/z'' = ''/a/''"
    by (simp_all add: parentPath_refines_spec spec_parentPath_def drop_trailing_slash_def
        through_last_slash_def)
  show ?thesis
    by (simp add: run_signals trace_def mkdir_run_created[where mode = "Inl n" for n, simplified]
        mkdir_run_failed[where mode = "Inr f" for f, simplified]
        unlink_run moveToTrash_run writeFile_run_created signals_of_simps parent)
qed

text \<open>
  Claim C1 as stated fails: two writes to the same existing file invoke the listener
  twice for that path, and two removals in the same directory invoke it twice for the
  directory.
\<close>

theorem repeated_signals_counterexample:
  "signals_of (snd (turns
      [writeFile (initWatchers returning module_init) ''/a/b.txt'' ''x''
         \<lparr>encoding = None\<rparr> (call returning)
         (Inr \<lparr>n_isFile = True, n_mtime = 6, n_size = 1\<rparr>) None
         (Inr \<lparr>n_isFile = True, n_mtime = 7, n_size = 1\<rparr>),
       writeFile (initWatchers returning module_init) ''/a/b.txt'' ''y''
         \<lparr>encoding = None\<rparr> (call returning)
         (Inr \<lparr>n_isFile = True, n_mtime = 7, n_size = 1\<rparr>) None
         (Inr \<lparr>n_isFile = True, n_mtime = 8, n_size = 1\<rparr>)] ((), []))) =
     [[JString ''/a/b.txt'', JStats \<lparr>isFile = True, mtime = 7, size' = 1\<rparr>],
      [JString ''/a/b.txt'', JStats \<lparr>isFile = True, mtime = 8, size' = 1\<rparr>]]"
  by (simp add: writeFile_run_modified signals_of_simps stat_args_def arg_def)

subsection \<open>readdir\<close>

lemma array_get_set:
  "array_get (array_set a i v) j = (if j = i then Some v else array_get a j)"
  by (auto simp: array_get_def array_set_def nth_append)

lemma length_array_set: "length (array_set a i v) = max (length a) (Suc i)"
  by (auto simp: array_set_def)

lemma stat_slot_or:
  "(if truthy (arg 0 (stat_args r)) then arg 0 (stat_args r) else arg 1 (stat_args r)) = stat_slot r"
  by (cases r) (simp_all add: stat_args_def stat_slot_def arg_def mapError_truthy)

lemma readdir_onStat_run:
  "fst (stat_done r (readdir_onStat (call cb) contents idx) (v, t)) =
     (let v2 = v\<lparr>rd_stats := array_set (rd_stats v) idx (stat_slot r),
                   rd_count := rd_count v - 1\<rparr>
      in if rd_count v - 1 \<le> 0
         then (v2, t @ [Callback [JNull, JArray (map (\<lambda>n. Some (JString n)) contents),
                                  JArray (rd_stats v2)]])
         else (v2, t))"
  by (simp add: stat_done_args readdir_onStat_def stat_slot_or call_def Let_def)

lemma filled_array:
  assumes len: "length a \<le> length outs"
    and filled: "\<forall>j<length outs. array_get a j = Some (stat_slot (outs ! j))"
  shows "a = map (\<lambda>r. Some (stat_slot r)) outs"
proof (rule nth_equalityI)
  show "length a = length (map (\<lambda>r. Some (stat_slot r)) outs)"
  proof (cases "outs = []")
    case True
    with len show ?thesis by simp
  next
    case False
    then have "length outs - 1 < length outs" by simp
    with filled have "array_get a (length outs - 1) \<noteq> None" by auto
    then have "length outs - 1 < length a"
      by (simp add: array_get_def split: if_splits)
    with len show ?thesis by simp
  qed
next
  fix i assume "i < length a"
  with len have "i < length outs" by simp
  with filled \<open>i < length a\<close> show "a ! i = map (\<lambda>r. Some (stat_slot r)) outs ! i"
    by (auto simp: array_get_def)
qed

lemma readdir_entries_run:
  assumes "distinct (map fst evs)"
    and "\<forall>(i, r) \<in> set evs. i < length outs \<and> r = outs ! i"
    and "rd_count v = int (length evs)"
    and "length (rd_stats v) \<le> length outs"
    and "\<forall>j<length outs. j \<notin> fst ` set evs \<longrightarrow> array_get (rd_stats v) j = Some (stat_slot (outs ! j))"
    and "evs \<noteq> []"
  shows "snd (turns (map (\<lambda>(idx, r'). stat_done r' (readdir_onStat (call cb) contents idx)) evs) (v, t)) =
         t @ [Callback [JNull, JArray (map (\<lambda>n. Some (JString n)) contents),
                        JArray (map (\<lambda>r. Some (stat_slot r)) outs)]]"
  using assms
proof (induction evs arbitrary: v)
  case Nil
  then show ?case by simp
next
  case (Cons ev rest)
  obtain i r where ev: "ev = (i, r)" by (cases ev)
  let ?a = "array_set (rd_stats v) i (stat_slot r)"
  let ?v2 = "v\<lparr>rd_stats := ?a, rd_count := rd_count v - 1\<rparr>"
  from Cons.prems(2) ev have i: "i < length outs" and r: "r = outs ! i" by auto
  have len: "length ?a \<le> length outs"
    using Cons.prems(4) i by (simp add: length_array_set)
  have filled: "array_get ?a j = Some (stat_slot (outs ! j))"
    if "j < length outs" "j \<notin> fst ` set rest" for j
  proof (cases "j = i")
    case True
    with r show ?thesis by (simp add: array_get_set)
  next
    case False
    with that ev have "j \<notin> fst ` set (ev # rest)" by simp
    with Cons.prems(5) that(1) False show ?thesis by (simp add: array_get_set)
  qed
  show ?case
  proof (cases "rest = []")
    case True
    with filled have "\<forall>j<length outs. array_get ?a j = Some (stat_slot (outs ! j))" by simp
    with len have "?a = map (\<lambda>r. Some (stat_slot r)) outs" by (rule filled_array)
    moreover have "rd_count v - 1 \<le> 0" using Cons.prems(3) True by simp
    ultimately show ?thesis
      by (simp add: ev True readdir_onStat_run Let_def)
  next
    case False
    then have pos: "\<not> rd_count v - 1 \<le> 0" using Cons.prems(3) by (cases rest) auto
    have step: "fst (stat_done r (readdir_onStat (call cb) contents i) (v, t)) = (?v2, t)"
      using pos by (simp add: readdir_onStat_run Let_def)
    have "snd (turns (map (\<lambda>(idx, r'). stat_done r' (readdir_onStat (call cb) contents idx)) rest) (?v2, t)) =
         t @ [Callback [JNull, JArray (map (\<lambda>n. Some (JString n)) contents),
                        JArray (map (\<lambda>r. Some (stat_slot r)) outs)]]"
    proof (rule Cons.IH)
      show "distinct (map fst rest)" using Cons.prems(1) by simp
      show "\<forall>(i, r) \<in> set rest. i < length outs \<and> r = outs ! i" using Cons.prems(2) by simp
      show "rd_count ?v2 = int (length rest)" using Cons.prems(3) by simp
      show "length (rd_stats ?v2) \<le> length outs" using len by simp
      show "\<forall>j<length outs. j \<notin> fst ` set rest \<longrightarrow>
              array_get (rd_stats ?v2) j = Some (stat_slot (outs ! j))"
        using filled by simp
      show "rest \<noteq> []" by (rule False)
    qed
    with step show ?thesis by (simp add: ev)
  qed
qed

lemma readdir_listed_run:
  "fst (seq (emit (Driver (FsReaddir path))) (readdir_listed path (call cb) (Inr contents))
         (rd_init, [])) =
     (if contents = []
      then (rd_init, [Driver (FsReaddir path), Callback [JNull, JArray [], JArray []]])
      else (\<lparr>rd_count = int (length contents), rd_stats = []\<rparr>,
            Driver (FsReaddir path) #
            map (\<lambda>val. Driver (FsStat (path @ ''/'' @ val))) contents))"
  by (simp add: seq_def emit_def readdir_listed_def rd_init_def call_def Let_def)

text \<open>
  Claim C2. When the enumeration succeeds with \<open>N\<close> names, \<open>readdir\<close> issues one stat call
  per name and invokes its callback exactly once, after the last of the \<open>N\<close> completions,
  with a \<open>null\<close> error, the names in order and an array of length \<open>N\<close> whose slot \<open>i\<close> holds
  the outcome of the stat of name \<open>i\<close> (the stats, or the translated error of that entry
  alone), in whatever order \<open>ord\<close> the completions arrive. For \<open>N = 0\<close> the callback
  receives two empty arrays in the turn of the enumeration.
\<close>

theorem readdir_order_preserved:
  assumes "length outs = length contents"
    and "distinct ord"
    and "set ord = {..<length contents}"
  shows "readdir path (call cb) (Inr contents) (map (\<lambda>i. (i, outs ! i)) ord) =
     Driver (FsReaddir path) # map (\<lambda>val. Driver (FsStat (path @ ''/'' @ val))) contents @
     [Callback [JNull, JArray (map (\<lambda>n. Some (JString n)) contents),
                JArray (map (\<lambda>r. Some (stat_slot r)) outs)]]"
proof (cases "contents = []")
  case True
  with assms(1) have "outs = []" by simp
  with True show ?thesis
    by (simp add: readdir_def readdir_turns_def readdir_listed_run)
next
  case False
  let ?evs = "map (\<lambda>i. (i, outs ! i)) ord"
  let ?v = "\<lparr>rd_count = int (length contents), rd_stats = []\<rparr>"
  let ?t = "Driver (FsReaddir path) # map (\<lambda>val. Driver (FsStat (path @ ''/'' @ val))) contents"
  have fst_evs: "map fst ?evs = ord" by (simp add: comp_def)
  have "length ord = card (set ord)" using assms(2) by (simp add: distinct_card)
  with assms(3) have len_ord: "length ord = length contents" by simp
  have "snd (turns (map (\<lambda>(idx, r'). stat_done r' (readdir_onStat (call cb) contents idx)) ?evs)
               (?v, ?t)) =
        ?t @ [Callback [JNull, JArray (map (\<lambda>n. Some (JString n)) contents),
                        JArray (map (\<lambda>r. Some (stat_slot r)) outs)]]"
  proof (rule readdir_entries_run)
    show "distinct (map fst ?evs)" using assms(2) by (simp only: fst_evs)
    show "\<forall>(i, r) \<in> set ?evs. i < length outs \<and> r = outs ! i"
      using assms(1,3) by auto
    show "rd_count ?v = int (length ?evs)" using len_ord by simp
    show "length (rd_stats ?v) \<le> length outs" by simp
    show "\<forall>j<length outs. j \<notin> fst ` set ?evs \<longrightarrow>
            array_get (rd_stats ?v) j = Some (stat_slot (outs ! j))"
      using assms(1,3) by (auto simp: image_comp comp_def)
    show "?evs \<noteq> []" using len_ord False by auto
  qed
  with False show ?thesis
    by (simp add: readdir_def readdir_turns_def readdir_listed_run)
qed

theorem readdir_order_preserved_witness:
  "length [Inr \<lparr>n_isFile = True, n_mtime = 7, n_size = 1\<rparr>, Inl (NativeError ''ENoEntry'')] =
     length [''a'', ''b''] \<and>
   distinct [1, 0 :: nat] \<and> set [1, 0 :: nat] = {..<length [''a'', ''b'']} \<and>
   readdir ''/d'' (call returning) (Inr [''a'', ''b''])
     [(1, Inl (NativeError ''ENoEntry'')),
      (0, Inr \<lparr>n_isFile = True, n_mtime = 7, n_size = 1\<rparr>)] =
     [Driver (FsReaddir ''/d''), Driver (FsStat ''/d/a''), Driver (FsStat ''/d/b''),
      Callback [JNull, JArray [Some (JString ''a''), Some (JString ''b'')],
                JArray [Some (JStats \<lparr>isFile = True, mtime = 7, size' = 1\<rparr>),
                        Some (JError NOT_FOUND)]]]"
proof -
  have ord: "set [1, 0 :: nat] = {..<length [''a'', ''b'']}" by auto
  show ?thesis
    using ord readdir_order_preserved
      [where outs = "[Inr \<lparr>n_isFile = True, n_mtime = 7, n_size = 1\<rparr>,
                      Inl (NativeError ''ENoEntry'')]"
         and contents = "[''a'', ''b'']" and ord = "[1, 0]" and path = "''/d''"
         and cb = returning]
    by (simp add: stat_slot_def mapError_def)
qed

end
